theory Spec2Isabelle
  imports Main "HOL-Library.Sublist"
begin

section \<open>The tokenizer: the regular expression of \<open>Start\<close>\<close>

text \<open>
  \<open>Start\<close> splits a line with
  \<^verbatim>\<open>regexp.MustCompile("'.+'|\".+\"|\\S+").FindAllString(cmd, -1)\<close>.
  The expression is kept as a value of a small regular-expression type, and the matcher is a
  backtracking matcher with Go's (Perl's) preferences: an alternation prefers its left branch,
  \<open>+\<close> is greedy, and the search takes the leftmost position at which anything matches.
  \<open>rmatch r s\<close> lists, in order of preference, the remainders of \<open>s\<close> after a match of
  \<open>r\<close> at the start of \<open>s\<close>.  Strings are byte lists; the three literal characters of the
  expression and the white space of \<open>\\S\<close> are ASCII, so matching bytes and matching UTF-8
  runes cut a line at the same places.
\<close>

datatype regex =
    Lit char
  | AnyChar
  | NotSpace
  | Plus regex
  | Seq regex regex
  | Alt regex regex

definition is_space :: "char \<Rightarrow> bool" where
  \<comment> \<open>the class \<open>\\s\<close> of Go's regexp syntax: tab, newline, form feed, carriage return, space\<close>
  "is_space c = (c \<in> set [CHR 0x09, CHR 0x0A, CHR 0x0C, CHR 0x0D, CHR 0x20])"

definition squote :: char where
  "squote = CHR 0x27"

definition dquote :: char where
  "dquote = CHR 0x22"

definition newline :: char where
  "newline = CHR 0x0A"

fun rmatch :: "regex \<Rightarrow> string \<Rightarrow> string list" where
  "rmatch (Lit c) s = (case s of [] \<Rightarrow> [] | x # xs \<Rightarrow> if x = c then [xs] else [])"
| "rmatch AnyChar s = (case s of [] \<Rightarrow> [] | x # xs \<Rightarrow> if x \<noteq> newline then [xs] else [])"
| "rmatch NotSpace s = (case s of [] \<Rightarrow> [] | x # xs \<Rightarrow> if \<not> is_space x then [xs] else [])"
| "rmatch (Seq a b) s = concat (map (rmatch b) (rmatch a s))"
| "rmatch (Alt a b) s = rmatch a s @ rmatch b s"
| "rmatch (Plus a) s =
     concat (map (\<lambda>s'. (if length s' < length s then rmatch (Plus a) s' else []) @ [s'])
                 (rmatch a s))"

text \<open>
  \<open>FindAllString r s\<close> with \<open>n = -1\<close>: the successive non-overlapping matches, each search
  starting where the previous match ended.  The expression of \<open>Start\<close> never matches the empty
  string; a position with no (or an empty) match is skipped.  Go returns nil when nothing
  matches, which \<open>RunCommand\<close> turns into the empty slice: both are \<open>[]\<close> here.
\<close>

fun FindAllString :: "regex \<Rightarrow> string \<Rightarrow> string list" where
  "FindAllString r [] = []"
| "FindAllString r (x # xs) =
     (case rmatch r (x # xs) of
        [] \<Rightarrow> FindAllString r xs
      | rest # _ \<Rightarrow>
          (if length rest < length (x # xs)
           then take (length (x # xs) - length rest) (x # xs) # FindAllString r rest
           else FindAllString r xs))"

definition quoted :: "char \<Rightarrow> regex" where
  \<comment> \<open>\<open>'.+'\<close> and \<open>".+"\<close>\<close>
  "quoted q = Seq (Lit q) (Seq (Plus AnyChar) (Lit q))"

definition token_regex :: regex where
  \<comment> \<open>\<open>'.+'|".+"|\\S+\<close>\<close>
  "token_regex = Alt (quoted squote) (Alt (quoted dquote) (Plus NotSpace))"

definition tokenize :: "string \<Rightarrow> string list" where
  "tokenize cmd = FindAllString token_regex cmd"

text \<open>The whitespace-delimited segments of a line: its maximal runs of non-space characters.\<close>

function ws_fields :: "string \<Rightarrow> string list" where
  "ws_fields [] = []"
| "ws_fields (x # xs) =
     (if is_space x then ws_fields xs
      else (x # takeWhile (\<lambda>c. \<not> is_space c) xs) # ws_fields (dropWhile (\<lambda>c. \<not> is_space c) xs))"
  by pat_completeness auto
termination
  by (relation "measure length") (auto simp: length_dropWhile_le less_Suc_eq_le)

section \<open>The data of clif and of the shell\<close>

text \<open>
  Of clif's \<open>Option\<close> and \<open>Argument\<close> (both embed \<open>parameter\<close>) the shell touches the name
  and the parsed values; of a \<open>Command\<close> its name, arguments and options.
\<close>

record parameter =
  Name :: string
  Values :: "string list"

record clif_Command =
  Command_Name :: string
  Arguments :: "parameter list"
  Options :: "parameter list"

text \<open>
  What \<open>i.Call(c)\<close> gives back: an error of the call itself, or the handler's results, of which
  the dispatcher looks at the first when it is a non-nil error (its message is kept).
\<close>

datatype call_result =
    CallError string
  | CallResults "string option"

text \<open>
  The collaborators of the shell.  clif's methods on commands and parameters are parameters of
  the model, and so is the order in which Go's \<open>range\<close> visits the keys of a map (the language
  leaves it unspecified).  \<open>Parse\<close> and \<open>Call\<close> work on the command object in place: they
  return the command as they leave it.  \<open>Call\<close> runs the handler, which reads the global
  options through \<open>GetOption\<close>.
\<close>

record clif =
  Parse :: "clif_Command \<Rightarrow> string list \<Rightarrow> clif_Command \<times> string option"
  Option :: "clif_Command \<Rightarrow> string \<Rightarrow> parameter option"
  Provided :: "parameter \<Rightarrow> bool"
  String :: "parameter \<Rightarrow> string"
  Bool :: "parameter \<Rightarrow> bool"
  Call :: "clif_Command \<Rightarrow> (string \<rightharpoonup> string) \<Rightarrow> clif_Command \<times> call_result"
  DescribeCommand :: "clif_Command \<Rightarrow> string"
  range_keys :: "(string \<rightharpoonup> string) \<Rightarrow> string list"

text \<open>The calls the shell makes on the line editor (liner), in order.\<close>

datatype liner_call =
    ReadHistory
  | SetCtrlCAborts bool
  | SetCompleter "string set"
  | AppendHistory string
  | WriteHistory
  | Close

text \<open>
  A call of \<open>fmt.Printf\<close>: the format string and the operands, as they are handed over.
  \<open>setCommand\<close> passes the dump of the global options as the format string itself, so a
  \<open>%\<close> in a key or a value is read as a verb; the call is recorded, not the text it gives.
\<close>

datatype printf_call = Printf string "string list"

text \<open>
  \<open>Cli\<close> is the part of \<open>clif.Cli\<close> the shell uses; \<open>Output\<close> holds the texts written with
  \<open>i.Output().Printf\<close> and \<open>Called\<close> the commands handed to \<open>i.Call\<close>, in order.  \<open>ICli\<close>
  embeds it.  \<open>optionList\<close> is a Go map used as a set (nil and empty read alike); \<open>stdout\<close>
  holds the calls of \<open>fmt.Printf\<close>, in order.
\<close>

record Cli =
  Commands :: "string \<rightharpoonup> clif_Command"
  DefaultCommand :: string
  DefaultOptions :: "parameter list"
  Output :: "string list"
  Called :: "clif_Command list"

record ICli = Cli +
  term' :: "liner_call list"
  prompt :: string
  history :: string
  optionList :: "string set"
  optionSet :: "string \<rightharpoonup> string"
  stdout :: "printf_call list"

datatype error =
    ErrQuit
  | ErrUnknown
  | UnknownOption string
  | ParseError string
  | HistoryOpenCreateError string string
  | HistoryReadError string string

datatype panic = IndexOutOfRange

fun error_text :: "error \<Rightarrow> string" where
  "error_text ErrQuit = ''goodbye''"
| "error_text ErrUnknown = ''unknown command''"
| "error_text (UnknownOption key) = ''unknown option '' @ key"
| "error_text (ParseError msg) = msg"
| "error_text (HistoryOpenCreateError h e) =
     ''could not open or create history file '' @ h @ '' :: '' @ e"
| "error_text (HistoryReadError h e) = ''could not read history file '' @ h @ '' :: '' @ e"

section \<open>Construction\<close>

text \<open>
  The outcomes of the file operations on the history file: \<open>None\<close> is success, \<open>Some e\<close> the
  error with its text.
\<close>

record history_io =
  open_err :: "string option"
  create_err :: "string option"
  read_err :: "string option"

definition NewICli :: "Cli \<Rightarrow> history_io \<Rightarrow> string \<Rightarrow> string \<Rightarrow> error + ICli" where
  \<comment> \<open>\<open>cli\<close> is what \<open>clif.New(name, version, desc)\<close> returned\<close>
  "NewICli cli io prompt' history' =
     (let icli = \<lparr>Commands = Commands cli, DefaultCommand = DefaultCommand cli,
                   DefaultOptions = DefaultOptions cli, Output = Output cli,
                   Called = Called cli,
                   term' = [], prompt = prompt', history = history',
                   optionList = {}, optionSet = Map.empty, stdout = []\<rparr>
      in case (case open_err io of None \<Rightarrow> None | Some _ \<Rightarrow> create_err io) of
           Some e \<Rightarrow> Inl (HistoryOpenCreateError history' e)
         | None \<Rightarrow>
             (case read_err io of
                Some e \<Rightarrow> Inl (HistoryReadError history' e)
              | None \<Rightarrow> Inr (icli\<lparr>term' := [ReadHistory, SetCtrlCAborts True]\<rparr>)))"

section \<open>Global options\<close>

definition SetGlobalOption :: "ICli \<Rightarrow> string \<Rightarrow> string \<Rightarrow> error option \<times> ICli" where
  "SetGlobalOption i key val =
     (if key \<notin> optionList i then (Some (UnknownOption key), i)
      else (None, i\<lparr>optionSet := (optionSet i)(key \<mapsto> val)\<rparr>))"

definition UnsetGlobalOption :: "ICli \<Rightarrow> string \<Rightarrow> error option \<times> ICli" where
  "UnsetGlobalOption i key = (None, i\<lparr>optionSet := (optionSet i)(key := None)\<rparr>)"

definition GetGlobalOptions :: "clif \<Rightarrow> ICli \<Rightarrow> string" where
  "GetGlobalOptions L i =
     concat (map (\<lambda>key. case optionSet i key of
                           None \<Rightarrow> []
                         | Some val \<Rightarrow> key @ ''='' @ val @ [newline])
                 (range_keys L (optionSet i)))"

text \<open>The receiver and the command are pointers: \<open>None\<close> is nil.\<close>

definition GetOption :: "clif \<Rightarrow> ICli option \<Rightarrow> clif_Command option \<Rightarrow> string \<Rightarrow> string" where
  "GetOption L i cmd name =
     (case (i, cmd) of
        (Some i', Some cmd') \<Rightarrow>
          (if name = [] then []
           else
             (case (case Option L cmd' name of
                      None \<Rightarrow> None
                    | Some opt \<Rightarrow> if Provided L opt then Some (String L opt) else None) of
                Some v \<Rightarrow> v
              | None \<Rightarrow> (case optionSet i' name of Some global \<Rightarrow> global | None \<Rightarrow> [])))
      | _ \<Rightarrow> [])"

section \<open>Registration\<close>

definition Add :: "ICli \<Rightarrow> clif_Command \<Rightarrow> ICli" where
  \<comment> \<open>clif's \<open>Add\<close>: the command is stored under its name\<close>
  "Add i cb = i\<lparr>Commands := (Commands i)(Command_Name cb \<mapsto> cb)\<rparr>"

definition updateCompleter :: "ICli \<Rightarrow> ICli" where
  "updateCompleter i = i\<lparr>term' := term' i @ [SetCompleter (dom (Commands i))]\<rparr>"

definition updateOptionList :: "ICli \<Rightarrow> ICli" where
  "updateOptionList i =
     i\<lparr>optionList := (\<Union>cmd \<in> ran (Commands i). Name ` set (Options cmd))
                      \<union> Name ` set (DefaultOptions i)\<rparr>"

definition AddCommands :: "ICli \<Rightarrow> clif_Command list \<Rightarrow> ICli" where
  "AddCommands i commands = updateOptionList (updateCompleter (foldl Add i commands))"

section \<open>The meta-commands \<open>set\<close> and \<open>unset\<close>\<close>

definition setCommand :: "clif \<Rightarrow> ICli \<Rightarrow> string list \<Rightarrow> ICli" where
  "setCommand L i args =
     (if length args \<noteq> 2 then i\<lparr>stdout := stdout i @ [Printf (GetGlobalOptions L i) []]\<rparr>
      else
        (case SetGlobalOption i (args ! 0) (args ! 1) of
           (Some err, i') \<Rightarrow> i'\<lparr>stdout := stdout i' @ [Printf (''error: %v'' @ [newline]) [error_text err]]\<rparr>
         | (None, i') \<Rightarrow> i'))"

text \<open>
  \<open>unsetCommand\<close> prints its message when the argument count is not 2 and goes on (there is
  no return), then reads \<open>args[1]\<close>: with fewer than two arguments the index is out of range
  and the Go runtime panics.
\<close>

definition unsetCommand :: "ICli \<Rightarrow> string list \<Rightarrow> panic + ICli" where
  "unsetCommand i args =
     (let i1 = (if length args \<noteq> 2
                then i\<lparr>stdout := stdout i @ [Printf ''error: need one option to unset'' []]\<rparr>
                else i)
      in if 1 < length args then Inr (snd (UnsetGlobalOption i1 (args ! 1)))
         else Inl IndexOutOfRange)"

section \<open>Dispatch\<close>

definition reset_values :: "clif_Command \<Rightarrow> clif_Command" where
  \<comment> \<open>the deferred function of \<open>RunCommand\<close>\<close>
  "reset_values c =
     c\<lparr>Arguments := map (\<lambda>a. a\<lparr>Values := []\<rparr>) (Arguments c),
       Options := map (\<lambda>opt. opt\<lparr>Values := []\<rparr>) (Options c)\<rparr>"

definition unknown_text :: "string \<Rightarrow> string" where
  "unknown_text a = ''error: command '' @ [dquote] @ a @ [dquote] @ '' unknown'' @ [newline]"

text \<open>
  The part of \<open>RunCommand\<close> after the command name is determined.  A parse error of clif is
  an error value of clif's own: it is never the variable \<open>ErrQuit\<close> of this package.
\<close>

definition run_named :: "clif \<Rightarrow> ICli \<Rightarrow> string list \<Rightarrow> string \<Rightarrow> string list
    \<Rightarrow> panic + (error option \<times> ICli)" where
  "run_named L i args name cargs =
     (case Commands i name of
        Some c \<Rightarrow>
          (let (c1, err) = Parse L c cargs;
               help = Option L c1 ''help''
           in if (case help of None \<Rightarrow> False | Some h \<Rightarrow> Bool L h) then
                Inr (None, i\<lparr>Commands := (Commands i)(name \<mapsto> reset_values c1),
                              Output := Output i @ [DescribeCommand L c1]\<rparr>)
              else
                (case err of
                   Some msg \<Rightarrow>
                     Inr (Some (ParseError msg),
                          i\<lparr>Commands := (Commands i)(name \<mapsto> reset_values c1),
                            Output := Output i @ [''parse error: '' @ msg @ [newline],
                                                  DescribeCommand L c1]\<rparr>)
                 | None \<Rightarrow>
                     (let (c2, res) = Call L c1 (optionSet i);
                          printed = (case res of
                                       CallError e \<Rightarrow> [e]
                                     | CallResults (Some e) \<Rightarrow>
                                         [''failure in execution: '' @ e @ [newline]]
                                     | CallResults None \<Rightarrow> [])
                      in Inr (None, i\<lparr>Commands := (Commands i)(name \<mapsto> reset_values c2),
                                       Output := Output i @ printed,
                                       Called := Called i @ [c1]\<rparr>))))
      | None \<Rightarrow>
          (if 0 < length args
           then Inr (Some ErrUnknown, i\<lparr>Output := Output i @ [unknown_text (args ! 0)]\<rparr>)
           else Inl IndexOutOfRange))"

definition RunCommand :: "clif \<Rightarrow> ICli \<Rightarrow> string list \<Rightarrow> panic + (error option \<times> ICli)" where
  "RunCommand L i args =
     (if length args < 1 \<or>
         (DefaultCommand i = ''list'' \<and> length args = 1 \<and>
          (args ! 0 = ''-h'' \<or> args ! 0 = ''--help''))
      then run_named L i args (DefaultCommand i) []
      else if length args = 1 \<and> (args ! 0 = ''quit'' \<or> args ! 0 = ''exit'')
      then Inr (Some ErrQuit, i)
      else if 0 < length args \<and> args ! 0 = ''set''
      then Inr (None, setCommand L i (tl args))
      else if 0 < length args \<and> args ! 0 = ''unset''
      then (case unsetCommand i (tl args) of
              Inl p \<Rightarrow> Inl p
            | Inr i' \<Rightarrow> Inr (None, i'))
      else run_named L i args (args ! 0) (tl args))"

section \<open>The read loop\<close>

text \<open>
  What \<open>Prompt\<close> returns, one value per call.  A session is the finite list of these values;
  when the list is used up the line editor reports the end of its input, a read error.
\<close>

datatype prompt_result =
    Line string
  | ErrPromptAborted
  | ReadError string

fun read_loop :: "clif \<Rightarrow> ICli \<Rightarrow> prompt_result list \<Rightarrow> panic + ICli" where
  "read_loop L i [] = Inr (i\<lparr>Output := Output i @ [''quitting on error :: EOF'']\<rparr>)"
| "read_loop L i (ErrPromptAborted # rest) =
     read_loop L (i\<lparr>Output := Output i @ [''type '' @ [dquote] @ ''quit'' @ [dquote]
                                             @ '' to quit'' @ [newline]]\<rparr>) rest"
| "read_loop L i (ReadError e # rest) =
     Inr (i\<lparr>Output := Output i @ [''quitting on error :: '' @ e]\<rparr>)"
| "read_loop L i (Line cmd # rest) =
     (if cmd = [] then read_loop L i rest
      else
        (case RunCommand L i (tokenize cmd) of
           Inl p \<Rightarrow> Inl p
         | Inr (err, i') \<Rightarrow>
             if err = Some ErrQuit then Inr i'
             else read_loop L (i'\<lparr>term' := term' i' @ [AppendHistory cmd]\<rparr>) rest))"

definition write_history :: "history_io \<Rightarrow> ICli \<Rightarrow> ICli" where
  \<comment> \<open>the end of \<open>Start\<close>: \<open>os.Create\<close>, then \<open>WriteHistory\<close> or the report\<close>
  "write_history io i =
     (case create_err io of
        Some e \<Rightarrow> i\<lparr>Output := Output i @ [''error writing history file: '' @ e @ [newline]]\<rparr>
      | None \<Rightarrow> i\<lparr>term' := term' i @ [WriteHistory]\<rparr>)"

text \<open>
  \<open>Start\<close>: \<open>io_start\<close> and \<open>io_exit\<close> are the outcomes of the file operations before and
  after the loop.  The deferred \<open>i.term.Close()\<close> is the last call on the line editor.
\<close>

definition Start :: "clif \<Rightarrow> ICli \<Rightarrow> string list \<Rightarrow> history_io \<Rightarrow> prompt_result list
    \<Rightarrow> history_io \<Rightarrow> panic + (error option \<times> ICli)" where
  "Start L i args io_start inputs io_exit =
     (if 0 < length args then
        (case RunCommand L i args of
           Inl p \<Rightarrow> Inl p
         | Inr (err, i') \<Rightarrow> Inr (err, i'\<lparr>term' := term' i' @ [Close]\<rparr>))
      else
        (let i0 = (case open_err io_start of
                     None \<Rightarrow> i\<lparr>term' := term' i @ [ReadHistory]\<rparr>
                   | Some _ \<Rightarrow> i)
         in case read_loop L i0 inputs of
              Inl p \<Rightarrow> Inl p
            | Inr i1 \<Rightarrow>
                (let i2 = write_history io_exit i1
                 in Inr (None, i2\<lparr>term' := term' i2 @ [Close]\<rparr>))))"

definition appended :: "liner_call list \<Rightarrow> string list" where
  \<comment> \<open>the lines handed to \<open>AppendHistory\<close>, in order\<close>
  "appended calls = concat (map (\<lambda>c. case c of AppendHistory l \<Rightarrow> [l] | _ \<Rightarrow> []) calls)"

section \<open>The Option Registry of the specification\<close>

text \<open>
  The specification's Option Registry, in its words: the union of the option names over all
  registered commands, plus the default options.
\<close>

definition option_registry :: "ICli \<Rightarrow> string set" where
  "option_registry i =
     {n. (\<exists>c \<in> ran (Commands i). \<exists>p \<in> set (Options c). Name p = n)
         \<or> (\<exists>p \<in> set (DefaultOptions i). Name p = n)}"


section \<open>A small shell to run the model on\<close>

text \<open>
  A stand-in for clif, enough to run the definitions on concrete input: options are looked up
  by name, an option is provided when it has a value, its string is its last value, and the
  parser takes \<open>--help\<close>, \<open>-h\<close> and pairs \<open>--name value\<close>.  The command is the \<open>hello\<close>
  command of \<open>examples/mycli.go\<close>, with its option \<open>name\<close> and the default option \<open>help\<close>.
\<close>

fun demo_assign :: "string \<Rightarrow> string \<Rightarrow> parameter list \<Rightarrow> parameter list option" where
  "demo_assign n v [] = None"
| "demo_assign n v (p # ps) =
     (if Name p = n then Some (p\<lparr>Values := Values p @ [v]\<rparr> # ps)
      else map_option ((#) p) (demo_assign n v ps))"

fun demo_parse :: "clif_Command \<Rightarrow> string list \<Rightarrow> clif_Command \<times> string option" where
  "demo_parse c [] = (c, None)"
| "demo_parse c [a] =
     (if a = ''--help'' \<or> a = ''-h'' then
        (case demo_assign ''help'' ''true'' (Options c) of
           None \<Rightarrow> (c, Some ''unknown option'')
         | Some os \<Rightarrow> (c\<lparr>Options := os\<rparr>, None))
      else (c, Some ''unexpected argument''))"
| "demo_parse c (a # v # rest) =
     (if a = ''--help'' \<or> a = ''-h'' then
        (case demo_assign ''help'' ''true'' (Options c) of
           None \<Rightarrow> (c, Some ''unknown option'')
         | Some os \<Rightarrow> demo_parse (c\<lparr>Options := os\<rparr>) (v # rest))
      else if take 2 a = ''--'' then
        (case demo_assign (drop 2 a) v (Options c) of
           None \<Rightarrow> (c, Some ''unknown option'')
         | Some os \<Rightarrow> demo_parse (c\<lparr>Options := os\<rparr>) rest)
      else (c, Some ''unexpected argument''))"

definition demo_clif :: clif where
  "demo_clif =
     \<lparr>Parse = demo_parse,
      Option = (\<lambda>c n. find (\<lambda>p. Name p = n) (Options c)),
      Provided = (\<lambda>p. Values p \<noteq> []),
      String = (\<lambda>p. if Values p = [] then [] else last (Values p)),
      Bool = (\<lambda>p. Values p \<noteq> [] \<and> last (Values p) \<in> set [''1'', ''t'', ''T'', ''TRUE'', ''true'', ''True'']),
      Call = (\<lambda>c opts. (c, CallResults None)),
      DescribeCommand = (\<lambda>c. ''Usage: '' @ Command_Name c),
      range_keys = (\<lambda>m. filter (\<lambda>k. m k \<noteq> None) [[], ''help'', ''name''])\<rparr>"

definition hello_command :: clif_Command where
  "hello_command =
     \<lparr>Command_Name = ''hello'', Arguments = [],
      Options = [\<lparr>Name = ''name'', Values = []\<rparr>, \<lparr>Name = ''help'', Values = []\<rparr>]\<rparr>"

definition demo_cli :: Cli where
  "demo_cli =
     \<lparr>Commands = Map.empty, DefaultCommand = ''list'',
      DefaultOptions = [\<lparr>Name = ''help'', Values = []\<rparr>], Output = [], Called = []\<rparr>"

definition new_shell :: ICli where
  "new_shell =
     \<lparr>Commands = Map.empty, DefaultCommand = ''list'',
      DefaultOptions = [\<lparr>Name = ''help'', Values = []\<rparr>], Output = [], Called = [],
      term' = [ReadHistory, SetCtrlCAborts True], prompt = ''mycli>'',
      history = ''.mycli_history'', optionList = {}, optionSet = Map.empty, stdout = []\<rparr>"

definition demo_shell :: ICli where
  "demo_shell = AddCommands new_shell [hello_command]"

definition set_shell :: ICli where
  "set_shell = setCommand demo_clif demo_shell [''name'', ''Jane'']"


text \<open>
  A command whose one option has the empty name, registered and then set as a global option
  through the public interface; file operations on the history file that all succeed, and
  file operations that all fail.
\<close>

definition nameless_command :: clif_Command where
  "nameless_command = \<lparr>Command_Name = ''odd'', Arguments = [], Options = [\<lparr>Name = [], Values = []\<rparr>]\<rparr>"

definition nameless_shell :: ICli where
  "nameless_shell = snd (SetGlobalOption (AddCommands new_shell [nameless_command]) [] ''v'')"

definition ok_history_io :: history_io where
  "ok_history_io = \<lparr>open_err = None, create_err = None, read_err = None\<rparr>"

definition no_history_io :: history_io where
  "no_history_io =
     \<lparr>open_err = Some ''no such file or directory'', create_err = Some ''permission denied'',
      read_err = None\<rparr>"


section \<open>Properties of the tokenizer\<close>

text \<open>
  The equation of \<open>rmatch\<close> for \<open>Plus\<close> unfolds for ever under the simplifier; it is taken
  out of the simpset and used through the two unfoldings below.
\<close>

lemmas rmatch_Plus = rmatch.simps(6)
declare rmatch.simps(6) [simp del]

lemma rmatch_plus_any_Nil: "rmatch (Plus AnyChar) [] = []"
  by (subst rmatch_Plus) simp

lemma rmatch_plus_any_Cons:
  "rmatch (Plus AnyChar) (x # xs) = (if x \<noteq> newline then rmatch (Plus AnyChar) xs @ [xs] else [])"
  by (subst rmatch_Plus) simp

lemma rmatch_close_Nil: "rmatch (Seq (Plus AnyChar) (Lit q)) [] = []"
  by (simp add: rmatch_plus_any_Nil)

lemma rmatch_close_Cons:
  "rmatch (Seq (Plus AnyChar) (Lit q)) (x # xs) =
     (if x \<noteq> newline then rmatch (Seq (Plus AnyChar) (Lit q)) xs @ rmatch (Lit q) xs else [])"
  by (simp add: rmatch_plus_any_Cons)

lemma rmatch_lit_none: "q \<notin> set s \<Longrightarrow> rmatch (Lit q) s = []"
  by (cases s) auto

lemma rmatch_close_none: "q \<notin> set s \<Longrightarrow> rmatch (Seq (Plus AnyChar) (Lit q)) s = []"
proof (induction s)
  case Nil
  show ?case by (rule rmatch_close_Nil)
next
  case (Cons x xs)
  from Cons.prems have "rmatch (Lit q) xs = []" by (intro rmatch_lit_none) simp
  with Cons show ?case by (simp add: rmatch_close_Cons del: rmatch.simps(4))
qed

lemma rmatch_close_last:
  "body \<noteq> [] \<Longrightarrow> newline \<notin> set body \<Longrightarrow> q \<notin> set rest \<Longrightarrow>
     \<exists>ys. rmatch (Seq (Plus AnyChar) (Lit q)) (body @ q # rest) = rest # ys"
proof (induction body)
  case Nil
  then show ?case by simp
next
  case (Cons b bs)
  show ?case
  proof (cases "bs = []")
    case True
    have "rmatch (Seq (Plus AnyChar) (Lit q)) (q # rest) = []"
      using Cons.prems(3) rmatch_close_none[of q rest] rmatch_lit_none[of q rest]
      by (simp add: rmatch_close_Cons del: rmatch.simps(4))
    with True Cons.prems show ?thesis
      by (auto simp add: rmatch_close_Cons simp del: rmatch.simps(4))
  next
    case False
    with Cons obtain ys where "rmatch (Seq (Plus AnyChar) (Lit q)) (bs @ q # rest) = rest # ys"
      by auto
    with Cons.prems show ?thesis
      by (auto simp add: rmatch_close_Cons simp del: rmatch.simps(4))
  qed
qed

lemma rmatch_plus_notspace_Cons:
  "rmatch (Plus NotSpace) (x # xs) =
     (if is_space x then [] else rmatch (Plus NotSpace) xs @ [xs])"
  by (subst rmatch_Plus) simp

lemma rmatch_plus_notspace_Nil: "rmatch (Plus NotSpace) [] = []"
  by (subst rmatch_Plus) simp

lemma rmatch_run:
  "\<not> is_space x \<Longrightarrow>
     \<exists>ys. rmatch (Plus NotSpace) (x # xs) = dropWhile (\<lambda>c. \<not> is_space c) xs # ys"
proof (induction xs arbitrary: x)
  case Nil
  then show ?case by (simp add: rmatch_plus_notspace_Cons rmatch_plus_notspace_Nil del: rmatch.simps(4))
next
  case (Cons y ys)
  show ?case
  proof (cases "is_space y")
    case True
    with Cons.prems show ?thesis by (simp add: rmatch_plus_notspace_Cons del: rmatch.simps(4))
  next
    case False
    from Cons.IH[OF False] obtain zs where
      "rmatch (Plus NotSpace) (y # ys) = dropWhile (\<lambda>c. \<not> is_space c) ys # zs" by blast
    with False Cons.prems show ?thesis
      by (simp add: rmatch_plus_notspace_Cons[of x] del: rmatch.simps(4))
  qed
qed


lemma rmatch_seq_lit_Cons:
  "rmatch (Seq (Lit c) r) (x # xs) = (if x = c then rmatch r xs else [])"
  by simp

lemma space_not_quote: "is_space x \<Longrightarrow> x \<noteq> squote \<and> x \<noteq> dquote"
  by (auto simp: is_space_def squote_def dquote_def)

lemma first_space: "is_space x \<Longrightarrow> rmatch token_regex (x # xs) = []"
  using space_not_quote[of x]
  by (simp add: token_regex_def quoted_def rmatch_plus_notspace_Cons rmatch_seq_lit_Cons
        del: rmatch.simps(4))

lemma first_plain:
  assumes "\<not> is_space x" "x \<noteq> squote" "x \<noteq> dquote"
  shows "\<exists>ys. rmatch token_regex (x # xs) = dropWhile (\<lambda>c. \<not> is_space c) xs # ys"
proof -
  from rmatch_run[OF assms(1)] obtain ys where
    "rmatch (Plus NotSpace) (x # xs) = dropWhile (\<lambda>c. \<not> is_space c) xs # ys" by blast
  with assms show ?thesis
    by (simp add: token_regex_def quoted_def rmatch_seq_lit_Cons del: rmatch.simps(4))
qed

lemma first_quoted:
  assumes "q = squote \<or> q = dquote" "body \<noteq> []" "newline \<notin> set body" "q \<notin> set rest"
  shows "\<exists>ys. rmatch token_regex (q # body @ q # rest) = rest # ys"
proof -
  from rmatch_close_last[OF assms(2,3,4)] obtain ys where
    ys: "rmatch (Seq (Plus AnyChar) (Lit q)) (body @ q # rest) = rest # ys" by blast
  have ne: "squote \<noteq> dquote" by (simp add: squote_def dquote_def)
  from assms(1) show ?thesis
  proof
    assume "q = squote"
    with ys show ?thesis
      by (simp add: token_regex_def quoted_def rmatch_seq_lit_Cons del: rmatch.simps(4))
  next
    assume "q = dquote"
    with ys ne show ?thesis
      by (simp add: token_regex_def quoted_def rmatch_seq_lit_Cons del: rmatch.simps(4))
  qed
qed

lemma tokenize_Nil: "tokenize [] = []"
  by (simp add: tokenize_def)

lemma tokenize_space: "is_space x \<Longrightarrow> tokenize (x # xs) = tokenize xs"
  by (simp add: tokenize_def first_space)

lemma take_run:
  "take (Suc (length xs) - length (dropWhile P xs)) (x # xs) = x # takeWhile P xs"
proof -
  have "length (dropWhile P xs) \<le> length xs" by (rule length_dropWhile_le)
  then have "Suc (length xs) - length (dropWhile P xs) = Suc (length xs - length (dropWhile P xs))"
    by simp
  moreover have "length xs - length (dropWhile P xs) = length (takeWhile P xs)"
    using takeWhile_dropWhile_id[of P xs] by (metis add_diff_cancel_right' length_append)
  ultimately show ?thesis
    by (simp add: takeWhile_eq_take[symmetric])
qed

lemma tokenize_plain:
  assumes "\<not> is_space x" "x \<noteq> squote" "x \<noteq> dquote"
  shows "tokenize (x # xs) =
           (x # takeWhile (\<lambda>c. \<not> is_space c) xs) # tokenize (dropWhile (\<lambda>c. \<not> is_space c) xs)"
proof -
  from first_plain[OF assms] obtain ys where
    "rmatch token_regex (x # xs) = dropWhile (\<lambda>c. \<not> is_space c) xs # ys" by blast
  moreover have "length (dropWhile (\<lambda>c. \<not> is_space c) xs) < Suc (length xs)"
    using length_dropWhile_le[of "\<lambda>c. \<not> is_space c" xs] by simp
  ultimately show ?thesis
    by (simp add: tokenize_def take_run)
qed

lemma tokenize_quoted:
  assumes "q = squote \<or> q = dquote" "body \<noteq> []" "newline \<notin> set body" "q \<notin> set rest"
  shows "tokenize (q # body @ q # rest) = (q # body @ [q]) # tokenize rest"
proof -
  from first_quoted[OF assms] obtain ys where
    "rmatch token_regex (q # body @ q # rest) = rest # ys" by blast
  then show ?thesis
    by (simp add: tokenize_def)
qed

lemma tokenize_prefix:
  "\<forall>c \<in> set pre. c \<noteq> squote \<and> c \<noteq> dquote \<Longrightarrow> pre = [] \<or> is_space (last pre) \<or> t = [] \<Longrightarrow>
     tokenize (pre @ t) = ws_fields pre @ tokenize t"
proof (induction pre rule: ws_fields.induct)
  case 1
  show ?case by simp
next
  case (2 x xs)
  show ?case
  proof (cases "is_space x")
    case True
    have "xs = [] \<or> is_space (last xs) \<or> t = []"
      using "2.prems"(2) by (cases "xs = []") auto
    with True "2.IH"(1) "2.prems"(1) show ?thesis
      by (simp add: tokenize_space)
  next
    case False
    let ?P = "\<lambda>c. \<not> is_space c"
    have split: "takeWhile ?P (xs @ t) = takeWhile ?P xs \<and> dropWhile ?P (xs @ t) = dropWhile ?P xs @ t"
    proof (cases "t = []")
      case True
      then show ?thesis by simp
    next
      case nt: False
      with "2.prems"(2) False have "xs \<noteq> []" "is_space (last xs)"
        by (auto split: if_splits)
      then have "last xs \<in> set xs" "\<not> ?P (last xs)" by auto
      then show ?thesis
        by (metis takeWhile_append1 dropWhile_append1)
    qed
    have sub: "set (dropWhile ?P xs) \<subseteq> set xs"
      by (rule set_dropWhileD[THEN subsetI])
    have cond: "dropWhile ?P xs = [] \<or> is_space (last (dropWhile ?P xs)) \<or> t = []"
    proof (cases "t = []")
      case True
      then show ?thesis by simp
    next
      case nt: False
      with "2.prems"(2) False have "xs \<noteq> []" "is_space (last xs)"
        by (auto split: if_splits)
      then have "dropWhile ?P xs \<noteq> []"
        by (metis dropWhile_eq_Nil_conv last_in_set)
      then have "last (dropWhile ?P xs) = last xs"
        by (metis takeWhile_dropWhile_id last_appendR)
      with \<open>is_space (last xs)\<close> show ?thesis by simp
    qed
    have "tokenize (dropWhile ?P xs @ t) = ws_fields (dropWhile ?P xs) @ tokenize t"
      using "2.IH"(2)[OF False _ cond] sub "2.prems"(1) by auto
    with False "2.prems"(1) split show ?thesis
      by (simp add: tokenize_plain)
  qed
qed


text \<open>
  The quoted alternatives are greedy: when the quote character occurs again later in the
  line, one token runs from the first quote to the last one.
\<close>

lemma tokenize_two_spans:
  "tokenize (''say '' @ [dquote] @ ''a'' @ [dquote] @ '' '' @ [dquote] @ ''b'' @ [dquote])
     = [''say'', [dquote] @ ''a'' @ [dquote] @ '' '' @ [dquote] @ ''b'' @ [dquote]]"
  by code_simp

text \<open>
  C2, as the specification states it: the tokenizer returns the whitespace-delimited and
  quote-delimited segments with the quote characters stripped, so that the line
  \<^verbatim>\<open>hello --name "Jane Doe"\<close> gives the tokens \<^verbatim>\<open>hello\<close>, \<^verbatim>\<open>--name\<close>,
  \<^verbatim>\<open>Jane Doe\<close>.  The code returns the matches of the expression as they are: the third
  token still has its two double quotes, and the stated result is not what \<open>tokenize\<close> gives.
\<close>

theorem tokenize_strips_quotes_counterexample:
  "tokenize (''hello --name '' @ [dquote] @ ''Jane Doe'' @ [dquote])
     \<noteq> [''hello'', ''--name'', ''Jane Doe'']"
  by code_simp

text \<open>
  C2, amended: the tokens keep their quote characters.  A line with no quote character gives
  exactly its maximal runs of non-space characters.  In a line \<open>pre q body q rest\<close>, where
  \<open>q\<close> is a single or a double quote, \<open>pre\<close> has no quote character and is empty or ends in
  white space, \<open>body\<close> is not empty and has no newline, and \<open>q\<close> does not occur in \<open>rest\<close>,
  the fields of \<open>pre\<close> are followed by the one token \<open>q body q\<close>, both quote characters
  included, and then by the tokens of \<open>rest\<close>.
\<close>

theorem tokenize_keeps_quotes:
  "((\<forall>c \<in> set line. c \<noteq> squote \<and> c \<noteq> dquote) \<longrightarrow> tokenize line = ws_fields line) \<and>
   ((q = squote \<or> q = dquote) \<and> (\<forall>c \<in> set pre. c \<noteq> squote \<and> c \<noteq> dquote) \<and>
    (pre = [] \<or> is_space (last pre)) \<and> body \<noteq> [] \<and> newline \<notin> set body \<and> q \<notin> set rest
      \<longrightarrow> tokenize (pre @ q # body @ q # rest)
            = ws_fields pre @ (q # body @ [q]) # tokenize rest)"
proof (intro conjI impI)
  assume "\<forall>c \<in> set line. c \<noteq> squote \<and> c \<noteq> dquote"
  then show "tokenize line = ws_fields line"
    using tokenize_prefix[of line "[]"] by (simp add: tokenize_Nil)
next
  assume a: "(q = squote \<or> q = dquote) \<and> (\<forall>c \<in> set pre. c \<noteq> squote \<and> c \<noteq> dquote) \<and>
    (pre = [] \<or> is_space (last pre)) \<and> body \<noteq> [] \<and> newline \<notin> set body \<and> q \<notin> set rest"
  then have "tokenize (pre @ q # body @ q # rest) = ws_fields pre @ tokenize (q # body @ q # rest)"
    by (intro tokenize_prefix) auto
  also have "tokenize (q # body @ q # rest) = (q # body @ [q]) # tokenize rest"
    using a by (intro tokenize_quoted) auto
  finally show "tokenize (pre @ q # body @ q # rest) = ws_fields pre @ (q # body @ [q]) # tokenize rest" .
qed

theorem tokenize_keeps_quotes_witness:
  "tokenize ''hello  world'' = [''hello'', ''world''] \<and>
   tokenize (''hello --name '' @ dquote # ''Jane Doe'' @ dquote # [])
     = [''hello'', ''--name'', dquote # ''Jane Doe'' @ [dquote]]"
proof -
  have 1: "\<forall>c \<in> set ''hello  world''. c \<noteq> squote \<and> c \<noteq> dquote"
    by (simp add: squote_def dquote_def)
  have 2: "(dquote = squote \<or> dquote = dquote) \<and>
      (\<forall>c \<in> set ''hello --name ''. c \<noteq> squote \<and> c \<noteq> dquote) \<and>
      (''hello --name '' = [] \<or> is_space (last ''hello --name '')) \<and> ''Jane Doe'' \<noteq> [] \<and>
      newline \<notin> set ''Jane Doe'' \<and> dquote \<notin> set []"
    by (simp add: squote_def dquote_def is_space_def newline_def)
  from 1 tokenize_keeps_quotes[of "''hello  world''"]
  have "tokenize ''hello  world'' = ws_fields ''hello  world''" by blast
  moreover from 2 tokenize_keeps_quotes[of _ dquote "''hello --name ''" "''Jane Doe''" "[]"]
  have "tokenize (''hello --name '' @ dquote # ''Jane Doe'' @ dquote # [])
          = ws_fields ''hello --name '' @ (dquote # ''Jane Doe'' @ [dquote]) # tokenize []"
    by blast
  ultimately show ?thesis
    by (simp add: is_space_def tokenize_Nil)
qed

section \<open>Running the small shell\<close>

lemma demo_shell_eq:
  "demo_shell = new_shell\<lparr>Commands := [''hello'' \<mapsto> hello_command],
       term' := [ReadHistory, SetCtrlCAborts True, SetCompleter {''hello''}],
       optionList := {''name'', ''help''}\<rparr>"
  by (auto simp add: demo_shell_def AddCommands_def updateOptionList_def updateCompleter_def Add_def
      new_shell_def hello_command_def)

lemma set_shell_eq: "set_shell = demo_shell\<lparr>optionSet := [''name'' \<mapsto> ''Jane'']\<rparr>"
  by (simp add: set_shell_def setCommand_def SetGlobalOption_def demo_shell_eq new_shell_def)

lemma tokenize_unset_region: "tokenize ''unset region'' = [''unset'', ''region'']"
  by code_simp

lemma tokenize_bogus: "tokenize ''bogus'' = [''bogus'']"
  by code_simp

lemma tokenize_quit: "tokenize ''quit'' = [''quit'']"
  by code_simp


section \<open>Option resolution\<close>

text \<open>
  C10: \<open>GetOption\<close> is total at the public interface.  Called with a nil receiver, with a
  nil command, or with an empty option name, it returns the empty string.
\<close>

theorem GetOption_total:
  "GetOption L None cmd name = [] \<and> GetOption L i None name = [] \<and> GetOption L i cmd [] = []"
  by (simp add: GetOption_def split: option.splits)


text \<open>
  C1, as the specification states it, holds for every option name.  The empty name is the
  exception: \<open>GetOption\<close> returns the empty string for it before it looks anywhere.  A command
  may declare an option with the empty name; after \<open>AddCommands\<close> the name is in the
  registry, \<open>SetGlobalOption\<close> stores a value under it, and \<open>GetOption\<close> still returns the
  empty string and not the stored value.
\<close>

theorem GetOption_empty_name_counterexample:
  "optionSet nameless_shell [] = Some ''v'' \<and>
   GetOption demo_clif (Some nameless_shell) (Some nameless_command) [] \<noteq> ''v''"
  by (simp add: nameless_shell_def nameless_command_def SetGlobalOption_def AddCommands_def
      updateOptionList_def updateCompleter_def Add_def new_shell_def GetOption_def)


text \<open>
  C1, amended: for every shell, every command and every non-empty option name, the value
  \<open>GetOption\<close> resolves follows the three tiers.  If the command has the option and it was
  provided on this command line, the result is that option's value; otherwise, if the name
  has an entry in the global option store, the result is that entry's value; otherwise it is
  the empty string.  It is never an error.
\<close>

theorem GetOption_precedence:
  assumes "name \<noteq> []"
  shows "(\<forall>opt. Option L cmd name = Some opt \<and> Provided L opt
            \<longrightarrow> GetOption L (Some i) (Some cmd) name = String L opt) \<and>
         ((Option L cmd name = None \<or> (\<exists>opt. Option L cmd name = Some opt \<and> \<not> Provided L opt))
            \<longrightarrow> (\<forall>v. optionSet i name = Some v \<longrightarrow> GetOption L (Some i) (Some cmd) name = v) \<and>
                (optionSet i name = None \<longrightarrow> GetOption L (Some i) (Some cmd) name = []))"
  using assms by (auto simp: GetOption_def split: option.splits)


text \<open>
  The scenario of the specification on the \<open>hello\<close> command: after \<open>set name Jane\<close> the
  handler resolves \<open>name\<close> to \<open>Jane\<close>; when the command line also gives \<open>--name Ann\<close> it
  resolves to \<open>Ann\<close>; before any \<open>set\<close> it resolves to the empty string.
\<close>

theorem GetOption_precedence_witness:
  "GetOption demo_clif (Some set_shell) (Some (fst (demo_parse hello_command [''--name'', ''Ann''])))
       ''name'' = ''Ann'' \<and>
   GetOption demo_clif (Some set_shell) (Some hello_command) ''name'' = ''Jane'' \<and>
   GetOption demo_clif (Some demo_shell) (Some hello_command) ''name'' = []"
proof -
  have n: "''name'' \<noteq> []" by simp
  let ?ann = "fst (demo_parse hello_command [''--name'', ''Ann''])"
  have a: "Option demo_clif ?ann ''name'' = Some \<lparr>Name = ''name'', Values = [''Ann'']\<rparr>"
    "Provided demo_clif \<lparr>Name = ''name'', Values = [''Ann'']\<rparr>"
    "String demo_clif \<lparr>Name = ''name'', Values = [''Ann'']\<rparr> = ''Ann''"
    by (simp_all add: hello_command_def demo_clif_def)
  have h: "Option demo_clif hello_command ''name'' = Some \<lparr>Name = ''name'', Values = []\<rparr>"
    "\<not> Provided demo_clif \<lparr>Name = ''name'', Values = []\<rparr>"
    by (simp_all add: hello_command_def demo_clif_def)
  have s: "optionSet set_shell ''name'' = Some ''Jane''" "optionSet demo_shell ''name'' = None"
    by (simp_all add: set_shell_eq demo_shell_eq new_shell_def)
  from GetOption_precedence[OF n, of demo_clif ?ann set_shell] a
  have "GetOption demo_clif (Some set_shell) (Some ?ann) ''name'' = ''Ann''" by metis
  moreover from GetOption_precedence[OF n, of demo_clif hello_command set_shell] h s
  have "GetOption demo_clif (Some set_shell) (Some hello_command) ''name'' = ''Jane''" by blast
  moreover from GetOption_precedence[OF n, of demo_clif hello_command demo_shell] h s
  have "GetOption demo_clif (Some demo_shell) (Some hello_command) ''name'' = []" by blast
  ultimately show ?thesis by blast
qed


section \<open>Setting global options\<close>

lemma AddCommands_optionList:
  "optionList (AddCommands i cs) = option_registry (AddCommands i cs)"
  by (auto simp add: AddCommands_def updateOptionList_def updateCompleter_def option_registry_def)


text \<open>
  C4: once \<open>AddCommands\<close> has rebuilt it, \<open>optionList\<close> is the Option Registry, the union
  of the option names over all registered commands plus the default options.  For every name
  that is not in the registry and every value, \<open>SetGlobalOption\<close> fails with an
  unknown-option error and leaves the shell, and with it the global option store,
  unchanged.  For every name in the registry it inserts or overwrites the entry and returns
  no error.
\<close>

theorem SetGlobalOption_registry:
  "optionList (AddCommands i cs) = option_registry (AddCommands i cs) \<and>
   (name \<notin> option_registry (AddCommands i cs) \<longrightarrow>
      SetGlobalOption (AddCommands i cs) name v = (Some (UnknownOption name), AddCommands i cs)) \<and>
   (name \<in> option_registry (AddCommands i cs) \<longrightarrow>
      SetGlobalOption (AddCommands i cs) name v
        = (None, (AddCommands i cs)\<lparr>optionSet := (optionSet (AddCommands i cs))(name \<mapsto> v)\<rparr>))"
  by (simp add: AddCommands_optionList[symmetric] SetGlobalOption_def)


text \<open>
  On the shell with the \<open>hello\<close> command: \<open>region\<close> is not a declared option and is
  refused, \<open>name\<close> is declared and is stored.
\<close>

theorem SetGlobalOption_registry_witness:
  "SetGlobalOption (AddCommands new_shell [hello_command]) ''region'' ''us-east''
     = (Some (UnknownOption ''region''), AddCommands new_shell [hello_command]) \<and>
   optionSet (snd (SetGlobalOption (AddCommands new_shell [hello_command]) ''name'' ''Jane'')) ''name''
     = Some ''Jane''"
proof -
  have "option_registry (AddCommands new_shell [hello_command])
          = optionList (AddCommands new_shell [hello_command])"
    by (rule AddCommands_optionList[symmetric])
  also have "\<dots> = optionList demo_shell"
    by (simp add: demo_shell_def)
  also have "\<dots> = {''name'', ''help''}"
    by (simp add: demo_shell_eq)
  finally have r: "option_registry (AddCommands new_shell [hello_command]) = {''name'', ''help''}" .
  have "''region'' \<notin> option_registry (AddCommands new_shell [hello_command])"
    "''name'' \<in> option_registry (AddCommands new_shell [hello_command])"
    by (simp_all add: r)
  with SetGlobalOption_registry[of new_shell "[hello_command]" "''region''" "''us-east''"]
    SetGlobalOption_registry[of new_shell "[hello_command]" "''name''" "''Jane''"]
  show ?thesis by simp
qed


section \<open>The \<open>unset\<close> meta-command\<close>

text \<open>\<open>UnsetGlobalOption\<close> itself ignores a name that is not set.\<close>

lemma UnsetGlobalOption_absent:
  "optionSet i key = None \<Longrightarrow> UnsetGlobalOption i key = (None, i)"
proof -
  assume "optionSet i key = None"
  then have "(optionSet i)(key := None) = optionSet i" by (simp add: fun_upd_idem_iff)
  then show ?thesis by (simp add: UnsetGlobalOption_def)
qed

text \<open>
  C5 says that \<open>unset\<close> with exactly one name removes that name's entry, and that a
  malformed argument count gives a usage error and never a crash.  The code does neither:
  \<open>unsetCommand\<close> compares the argument count with 2, does not return after its message,
  and reads \<open>args[1]\<close>.  With one name, or with none, the index is out of range and the
  shell panics, whatever the name and the state; with two arguments it removes the second
  one without a message.
\<close>

theorem unsetCommand_one_name_panics:
  "unsetCommand i [name] = Inl IndexOutOfRange \<and>
   unsetCommand i [] = Inl IndexOutOfRange \<and>
   RunCommand L i [''unset'', name] = Inl IndexOutOfRange \<and>
   unsetCommand i [a, b] = Inr (i\<lparr>optionSet := (optionSet i)(b := None)\<rparr>)"
  by (simp add: unsetCommand_def RunCommand_def UnsetGlobalOption_def)


section \<open>Dispatch\<close>

lemma RunCommand_named:
  assumes "name \<noteq> ''set''" "name \<noteq> ''unset''"
    "cargs = [] \<longrightarrow> name \<noteq> ''quit'' \<and> name \<noteq> ''exit''"
    "cargs = [] \<and> DefaultCommand i = ''list'' \<longrightarrow> name \<noteq> ''-h'' \<and> name \<noteq> ''--help''"
  shows "RunCommand L i (name # cargs) = run_named L i (name # cargs) name cargs"
  using assms by (auto simp add: RunCommand_def)

lemma run_named_returns:
  "args \<noteq> [] \<Longrightarrow> \<exists>err i'. run_named L i args n cs = Inr (err, i') \<and> err \<noteq> Some ErrQuit"
  by (simp add: run_named_def Let_def split: option.split prod.split)

lemma RunCommand_returns:
  assumes "args \<noteq> []" "hd args \<noteq> ''unset''"
  shows "\<exists>err i'. RunCommand L i args = Inr (err, i') \<and>
           (err = Some ErrQuit \<longleftrightarrow> args = [''quit''] \<or> args = [''exit''])"
proof -
  from assms obtain a as where args: "args = a # as" "a \<noteq> ''unset''" by (cases args) auto
  consider (default) "as = []" "DefaultCommand i = ''list''" "a = ''-h'' \<or> a = ''--help''"
    | (quit) "as = []" "a = ''quit'' \<or> a = ''exit''"
    | (set) "a = ''set''"
    | (named) "a \<noteq> ''set''" "as = [] \<longrightarrow> a \<noteq> ''quit'' \<and> a \<noteq> ''exit''"
        "as = [] \<and> DefaultCommand i = ''list'' \<longrightarrow> a \<noteq> ''-h'' \<and> a \<noteq> ''--help''"
    by blast
  then show ?thesis
  proof cases
    case default
    then have "RunCommand L i args = run_named L i args (DefaultCommand i) []"
      using args by (auto simp add: RunCommand_def)
    moreover have "args \<noteq> [''quit''] \<and> args \<noteq> [''exit'']"
      using default args by auto
    ultimately show ?thesis
      using run_named_returns[OF assms(1), of L i "DefaultCommand i" "[]"] by auto
  next
    case quit
    then have "RunCommand L i args = Inr (Some ErrQuit, i)"
      using args by (auto simp add: RunCommand_def)
    with quit args show ?thesis by auto
  next
    case set
    then have "RunCommand L i args = Inr (None, setCommand L i as)"
      using args by (simp add: RunCommand_def)
    with set args show ?thesis by auto
  next
    case named
    then have "RunCommand L i args = run_named L i args a as"
      using args RunCommand_named[of a as i L] by simp
    moreover have "args \<noteq> [''quit''] \<and> args \<noteq> [''exit'']"
      using named args by auto
    ultimately show ?thesis
      using run_named_returns[OF assms(1), of L i a as] by auto
  qed
qed

text \<open>
  With no token at all (a line of white space only) the default command is looked up; when
  it is not registered, the report of the unknown command reads \<open>args[0]\<close> of the empty
  slice.
\<close>

lemma RunCommand_default_missing:
  "Commands i (DefaultCommand i) = None \<Longrightarrow> RunCommand L i [] = Inl IndexOutOfRange"
  by (simp add: RunCommand_def run_named_def)










text \<open>
  Two invocations in succession: the handler of the second one is called with the value
  \<open>Bob\<close> alone, the earlier \<open>Ann\<close> is gone.
\<close>

lemma hello_twice:
  "\<exists>i1 i2. RunCommand demo_clif demo_shell [''hello'', ''--name'', ''Ann''] = Inr (None, i1) \<and>
      RunCommand demo_clif i1 [''hello'', ''--name'', ''Bob''] = Inr (None, i2) \<and>
      Called i2 = [hello_command\<lparr>Options := [\<lparr>Name = ''name'', Values = [''Ann'']\<rparr>,
                                                \<lparr>Name = ''help'', Values = []\<rparr>]\<rparr>,
                   hello_command\<lparr>Options := [\<lparr>Name = ''name'', Values = [''Bob'']\<rparr>,
                                                \<lparr>Name = ''help'', Values = []\<rparr>]\<rparr>]"
  by (simp add: RunCommand_def run_named_def reset_values_def demo_shell_eq new_shell_def
      demo_clif_def hello_command_def)


text \<open>
  C8: for every registered command dispatched with tokens after whose parsing the option
  \<open>help\<close> is present and true, the dispatcher prints the description of the command and
  returns success (a nil error), whether or not parsing reported an error, and the handler
  is not invoked.
\<close>

theorem RunCommand_help_skips_handler:
  assumes "Commands i name = Some c" "name \<noteq> ''set''" "name \<noteq> ''unset''"
    "cargs = [] \<longrightarrow> name \<noteq> ''quit'' \<and> name \<noteq> ''exit''"
    "cargs = [] \<and> DefaultCommand i = ''list'' \<longrightarrow> name \<noteq> ''-h'' \<and> name \<noteq> ''--help''"
    "Parse L c cargs = (c1, perr)" "Option L c1 ''help'' = Some h" "Bool L h"
  shows "\<exists>i'. RunCommand L i (name # cargs) = Inr (None, i') \<and>
           Output i' = Output i @ [DescribeCommand L c1] \<and> Called i' = Called i"
  using assms(1,6,7,8) RunCommand_named[OF assms(2-5)] by (simp add: run_named_def)


text \<open>\<open>hello --help\<close> prints the usage of \<open>hello\<close> and calls no handler.\<close>

theorem RunCommand_help_skips_handler_witness:
  "\<exists>i'. RunCommand demo_clif demo_shell [''hello'', ''--help''] = Inr (None, i') \<and>
      Output i' = Output demo_shell @ [''Usage: hello''] \<and> Called i' = Called demo_shell"
proof -
  let ?c1 = "hello_command\<lparr>Options := [\<lparr>Name = ''name'', Values = []\<rparr>, \<lparr>Name = ''help'', Values = [''true'']\<rparr>]\<rparr>"
  let ?h = "\<lparr>Name = ''help'', Values = [''true'']\<rparr>"
  have c: "Commands demo_shell ''hello'' = Some hello_command"
    by (simp add: demo_shell_eq)
  have p: "Parse demo_clif hello_command [''--help''] = (?c1, None)"
    by (simp add: demo_clif_def hello_command_def)
  have o: "Option demo_clif ?c1 ''help'' = Some ?h"
    by (simp add: demo_clif_def)
  have b: "Bool demo_clif ?h"
    by (simp add: demo_clif_def)
  have d: "DescribeCommand demo_clif ?c1 = ''Usage: hello''"
    by (simp add: demo_clif_def hello_command_def)
  from RunCommand_help_skips_handler[OF c _ _ _ _ p o b] d
  show ?thesis by simp
qed


section \<open>The read loop\<close>

text \<open>
  C3 says that for every dispatched token sequence only the quit condition ends the loop.
  The line \<^verbatim>\<open>unset region\<close> is not the quit condition, and it ends the loop: its dispatch
  panics in \<open>unsetCommand\<close> (see C5), for every shell and every library, so no further
  line is read.  For every non-empty token sequence that does not start with \<open>unset\<close> the
  claim holds: that is \<open>RunCommand_returns\<close> above.
\<close>

theorem read_loop_unset_panics:
  "read_loop L i (Line ''unset region'' # rest) = Inl IndexOutOfRange"
  by (simp add: tokenize_unset_region unsetCommand_def RunCommand_def)


lemma run_named_term: "run_named L i args n cs = Inr (err, i') \<Longrightarrow> term' i' = term' i"
  by (auto simp add: run_named_def Let_def split: option.splits prod.splits if_splits)

lemma RunCommand_term: "RunCommand L i args = Inr (err, i') \<Longrightarrow> term' i' = term' i"
  by (auto simp add: RunCommand_def setCommand_def unsetCommand_def SetGlobalOption_def
      UnsetGlobalOption_def Let_def dest: run_named_term split: if_splits sum.splits prod.splits)

lemma appended_snoc: "appended (cs @ [AppendHistory l]) = appended cs @ [l]"
  by (simp add: appended_def)

lemma read_loop_appended:
  "read_loop L i inputs = Inr i' \<Longrightarrow> prefix (appended (term' i)) (appended (term' i'))"
proof (induction L i inputs rule: read_loop.induct)
  case (1 L i)
  then show ?case by auto
next
  case (2 L i rest)
  then show ?case by auto
next
  case (3 L i e rest)
  then show ?case by auto
next
  case (4 L i cmd rest)
  show ?case
  proof (cases "cmd = []")
    case True
    with 4 show ?thesis by simp
  next
    case False
    with "4.prems" obtain err j where r: "RunCommand L i (tokenize cmd) = Inr (err, j)"
      by (auto split: sum.splits)
    show ?thesis
    proof (cases "err = Some ErrQuit")
      case True
      with False r "4.prems" RunCommand_term[OF r] show ?thesis by simp
    next
      case ne: False
      with False r "4.prems" have
        "read_loop L (j\<lparr>term' := term' j @ [AppendHistory cmd]\<rparr>) rest = Inr i'" by simp
      from "4.IH"(2)[OF False r refl ne this] RunCommand_term[OF r]
      show ?thesis by (auto simp add: appended_snoc prefix_def)
    qed
  qed
qed


text \<open>
  The lines whose dispatch returns.  A non-empty line whose dispatch returns anything but
  the quit condition (no error, an unknown command, a parse error) is handed to
  \<open>AppendHistory\<close>: the loop goes on with the line appended to the lines appended so far, and
  the line stays there, whatever follows, up to the end of the session.  An empty line is
  passed over with no dispatch and nothing appended.  A line whose dispatch returns the quit
  condition ends the loop and is not appended.
\<close>

lemma read_loop_appends_line:
  "(cmd \<noteq> [] \<and> RunCommand L i (tokenize cmd) = Inr (err, i1) \<and> err \<noteq> Some ErrQuit \<longrightarrow>
      read_loop L i (Line cmd # rest)
        = read_loop L (i1\<lparr>term' := term' i1 @ [AppendHistory cmd]\<rparr>) rest \<and>
      appended (term' (i1\<lparr>term' := term' i1 @ [AppendHistory cmd]\<rparr>)) = appended (term' i) @ [cmd] \<and>
      (\<forall>i2. read_loop L i (Line cmd # rest) = Inr i2
            \<longrightarrow> prefix (appended (term' i) @ [cmd]) (appended (term' i2)))) \<and>
   read_loop L i (Line [] # rest) = read_loop L i rest \<and>
   (cmd \<noteq> [] \<and> RunCommand L i (tokenize cmd) = Inr (Some ErrQuit, i1) \<longrightarrow>
      read_loop L i (Line cmd # rest) = Inr i1 \<and> appended (term' i1) = appended (term' i))"
proof (intro conjI impI allI)
  assume a: "cmd \<noteq> [] \<and> RunCommand L i (tokenize cmd) = Inr (err, i1) \<and> err \<noteq> Some ErrQuit"
  then show step: "read_loop L i (Line cmd # rest)
        = read_loop L (i1\<lparr>term' := term' i1 @ [AppendHistory cmd]\<rparr>) rest"
    by simp
  from a RunCommand_term[of L i "tokenize cmd" err i1]
  show app: "appended (term' (i1\<lparr>term' := term' i1 @ [AppendHistory cmd]\<rparr>)) = appended (term' i) @ [cmd]"
    by (simp add: appended_snoc)
  fix i2 assume "read_loop L i (Line cmd # rest) = Inr i2"
  with step have "read_loop L (i1\<lparr>term' := term' i1 @ [AppendHistory cmd]\<rparr>) rest = Inr i2"
    by simp
  from read_loop_appended[OF this] app
  show "prefix (appended (term' i) @ [cmd]) (appended (term' i2))" by simp
next
  show "read_loop L i (Line [] # rest) = read_loop L i rest" by simp
next
  assume a: "cmd \<noteq> [] \<and> RunCommand L i (tokenize cmd) = Inr (Some ErrQuit, i1)"
  then show "read_loop L i (Line cmd # rest) = Inr i1" by simp
  from a RunCommand_term[of L i "tokenize cmd" "Some ErrQuit" i1]
  show "appended (term' i1) = appended (term' i)" by simp
qed


text \<open>
  A session: the unknown command \<open>bogus\<close> is appended, the empty line is not, \<open>quit\<close>
  ends the loop and is not appended, and the line after it is never read.
\<close>

lemma read_loop_appends_line_session:
  "\<exists>j. read_loop demo_clif demo_shell [Line ''bogus'', Line [], Line ''quit'', Line ''hello''] = Inr j \<and>
       appended (term' j) = [''bogus'']"
proof -
  let ?i1 = "demo_shell\<lparr>Output := [unknown_text ''bogus'']\<rparr>"
  let ?i2 = "?i1\<lparr>term' := term' ?i1 @ [AppendHistory ''bogus'']\<rparr>"
  have r1: "RunCommand demo_clif demo_shell (tokenize ''bogus'') = Inr (Some ErrUnknown, ?i1)"
    by (simp add: tokenize_bogus RunCommand_def run_named_def demo_shell_eq new_shell_def)
  have r2: "RunCommand demo_clif ?i2 (tokenize ''quit'') = Inr (Some ErrQuit, ?i2)"
    by (simp add: tokenize_quit RunCommand_def demo_shell_eq new_shell_def)
  have a0: "appended (term' demo_shell) = []"
    by (simp add: appended_def demo_shell_eq new_shell_def)
  from r1 read_loop_appends_line[of "''bogus''" demo_clif demo_shell "Some ErrUnknown" ?i1
      "[Line [], Line ''quit'', Line ''hello'']"]
  have s1: "read_loop demo_clif demo_shell [Line ''bogus'', Line [], Line ''quit'', Line ''hello'']
              = read_loop demo_clif ?i2 [Line [], Line ''quit'', Line ''hello'']"
    and h1: "appended (term' ?i2) = appended (term' demo_shell) @ [''bogus'']"
    by simp_all
  from read_loop_appends_line[of _ demo_clif ?i2 _ _ "[Line ''quit'', Line ''hello'']"]
  have s2: "read_loop demo_clif ?i2 [Line [], Line ''quit'', Line ''hello'']
              = read_loop demo_clif ?i2 [Line ''quit'', Line ''hello'']"
    by blast
  from r2 read_loop_appends_line[of "''quit''" demo_clif ?i2 _ ?i2 "[Line ''hello'']"]
  have s3: "read_loop demo_clif ?i2 [Line ''quit'', Line ''hello''] = Inr ?i2"
    by simp
  from s1 s2 s3 h1 a0 show ?thesis by simp
qed


text \<open>
  C9 says that every non-empty accepted line whose dispatch does not return the quit
  condition is appended to the history.  The line \<^verbatim>\<open>unset region\<close> is not empty and its
  dispatch does not return the quit condition: it panics in \<open>unsetCommand\<close> (see C5).  The
  session ends there, for every shell, every library and every outcome of the file
  operations: \<open>AppendHistory\<close> is never reached for the line, and no history is written.
\<close>

theorem Start_unset_line_panics:
  "Start L i [] io_start (Line ''unset region'' # rest) io_exit = Inl IndexOutOfRange"
  by (simp add: Start_def Let_def tokenize_unset_region RunCommand_def unsetCommand_def
      split: option.split)


section \<open>History file failures\<close>

text \<open>
  C6 says that a history I/O failure is never fatal, construction included.  \<open>NewICli\<close>
  returns an error and no shell when the history file can neither be opened nor created.
\<close>

theorem NewICli_history_counterexample:
  "NewICli demo_cli no_history_io ''mycli>'' ''/nodir/.mycli_history''
     = Inl (HistoryOpenCreateError ''/nodir/.mycli_history'' ''permission denied'')"
  by (simp add: NewICli_def no_history_io_def)


lemma run_named_term_update:
  "run_named L (i\<lparr>term' := t\<rparr>) args n cs =
     (case run_named L i args n cs of Inl p \<Rightarrow> Inl p | Inr (e, j) \<Rightarrow> Inr (e, j\<lparr>term' := t\<rparr>))"
  by (simp add: run_named_def Let_def split: option.split prod.split)

lemma RunCommand_term_update:
  "RunCommand L (i\<lparr>term' := t\<rparr>) args =
     (case RunCommand L i args of Inl p \<Rightarrow> Inl p | Inr (e, j) \<Rightarrow> Inr (e, j\<lparr>term' := t\<rparr>))"
  by (cases args)
    (auto simp add: RunCommand_def run_named_term_update setCommand_def unsetCommand_def
      SetGlobalOption_def UnsetGlobalOption_def GetGlobalOptions_def Let_def)

lemma read_loop_isl:
  "isl (read_loop L (i\<lparr>term' := t\<rparr>) inputs) = isl (read_loop L i inputs)"
proof (induction inputs arbitrary: i t)
  case Nil
  show ?case by simp
next
  case (Cons x rest)
  show ?case
  proof (cases x)
    case (Line cmd)
    show ?thesis
    proof (cases "cmd = []")
      case True
      with Line Cons.IH show ?thesis by simp
    next
      case False
      show ?thesis
      proof (cases "RunCommand L i (tokenize cmd)")
        case (Inl p)
        with Line False show ?thesis by (simp add: RunCommand_term_update)
      next
        case (Inr r)
        obtain e j where r: "r = (e, j)" by (cases r)
        have "isl (read_loop L (j\<lparr>term' := t @ [AppendHistory cmd]\<rparr>) rest)
                = isl (read_loop L (j\<lparr>term' := term' j @ [AppendHistory cmd]\<rparr>) rest)"
          using Cons.IH[where i = j and t = "t @ [AppendHistory cmd]"]
            Cons.IH[where i = j and t = "term' j @ [AppendHistory cmd]"]
          by simp
        with Line False Inr r show ?thesis by (simp add: RunCommand_term_update)
      qed
    qed
  next
    case ErrPromptAborted
    let ?o = "Output i @ [''type '' @ [dquote] @ ''quit'' @ [dquote] @ '' to quit'' @ [newline]]"
    have eq: "(i\<lparr>term' := t\<rparr>)\<lparr>Output := ?o\<rparr> = (i\<lparr>Output := ?o\<rparr>)\<lparr>term' := t\<rparr>"
      by simp
    have "isl (read_loop L ((i\<lparr>term' := t\<rparr>)\<lparr>Output := ?o\<rparr>) rest)
            = isl (read_loop L (i\<lparr>Output := ?o\<rparr>) rest)"
      unfolding eq by (rule Cons.IH)
    with ErrPromptAborted show ?thesis by simp
  next
    case (ReadError e)
    then show ?thesis by simp
  qed
qed


text \<open>
  C6, amended: construction fails on history I/O, and only on it: \<open>NewICli\<close> returns an
  error exactly when the history file can neither be opened nor created, or when reading it
  fails.  Inside \<open>Start\<close> a history I/O failure is not fatal: whatever the outcomes of the
  file operations before and after the loop, an interactive session whose commands do not
  panic returns no error.  A history file that cannot be opened before the loop is passed
  over in silence: the loop runs from the shell as it was, with nothing printed and no call
  on the line editor, and the shell at the end is the one the loop left, followed by the
  write of the history and the closing of the line editor.  A history file that can be
  opened is read first.  A history file that cannot be created after the loop is reported
  with \<^verbatim>\<open>error writing history file\<close> as the last output, and nothing is written.
\<close>

theorem history_io_failures:
  "((\<exists>e. NewICli cli io p h = Inl e)
      \<longleftrightarrow> (open_err io \<noteq> None \<and> create_err io \<noteq> None) \<or> read_err io \<noteq> None) \<and>
   (read_loop L i inputs = Inr j \<longrightarrow>
      (\<exists>i'. Start L i [] io1 inputs io2 = Inr (None, i') \<and>
            (\<forall>e. create_err io2 = Some e
                  \<longrightarrow> last (Output i') = ''error writing history file: '' @ e @ [newline]))) \<and>
   (open_err io1 \<noteq> None \<and> read_loop L i inputs = Inr j \<longrightarrow>
      Start L i [] io1 inputs io2
        = Inr (None, case create_err io2 of
                       None \<Rightarrow> j\<lparr>term' := term' j @ [WriteHistory, Close]\<rparr>
                     | Some e \<Rightarrow>
                         j\<lparr>Output := Output j @ [''error writing history file: '' @ e @ [newline]],
                           term' := term' j @ [Close]\<rparr>)) \<and>
   (open_err io1 = None \<and> read_loop L (i\<lparr>term' := term' i @ [ReadHistory]\<rparr>) inputs = Inr j \<longrightarrow>
      Start L i [] io1 inputs io2
        = Inr (None, case create_err io2 of
                       None \<Rightarrow> j\<lparr>term' := term' j @ [WriteHistory, Close]\<rparr>
                     | Some e \<Rightarrow>
                         j\<lparr>Output := Output j @ [''error writing history file: '' @ e @ [newline]],
                           term' := term' j @ [Close]\<rparr>))"
proof (intro conjI impI)
  show "(\<exists>e. NewICli cli io p h = Inl e)
      \<longleftrightarrow> (open_err io \<noteq> None \<and> create_err io \<noteq> None) \<or> read_err io \<noteq> None"
    by (auto simp add: NewICli_def Let_def split: option.splits)
next
  assume a: "read_loop L i inputs = Inr j"
  define i0 where "i0 = (case open_err io1 of None \<Rightarrow> i\<lparr>term' := term' i @ [ReadHistory]\<rparr> | Some _ \<Rightarrow> i)"
  have "i0 = i\<lparr>term' := term' i0\<rparr>"
    by (simp add: i0_def split: option.split)
  then have "isl (read_loop L i0 inputs) = isl (read_loop L i inputs)"
    using read_loop_isl[where i = i and t = "term' i0" and L = L and inputs = inputs] by simp
  with a obtain i1 where i1: "read_loop L i0 inputs = Inr i1"
    by (cases "read_loop L i0 inputs") auto
  from i1[unfolded i0_def]
  show "\<exists>i'. Start L i [] io1 inputs io2 = Inr (None, i') \<and>
            (\<forall>e. create_err io2 = Some e
                  \<longrightarrow> last (Output i') = ''error writing history file: '' @ e @ [newline])"
    by (auto simp add: Start_def write_history_def Let_def split: option.split)
next
  assume "open_err io1 \<noteq> None \<and> read_loop L i inputs = Inr j"
  then show "Start L i [] io1 inputs io2
        = Inr (None, case create_err io2 of
                       None \<Rightarrow> j\<lparr>term' := term' j @ [WriteHistory, Close]\<rparr>
                     | Some e \<Rightarrow>
                         j\<lparr>Output := Output j @ [''error writing history file: '' @ e @ [newline]],
                           term' := term' j @ [Close]\<rparr>)"
    by (auto simp add: Start_def write_history_def Let_def split: option.split)
next
  assume "open_err io1 = None \<and> read_loop L (i\<lparr>term' := term' i @ [ReadHistory]\<rparr>) inputs = Inr j"
  then show "Start L i [] io1 inputs io2
        = Inr (None, case create_err io2 of
                       None \<Rightarrow> j\<lparr>term' := term' j @ [WriteHistory, Close]\<rparr>
                     | Some e \<Rightarrow>
                         j\<lparr>Output := Output j @ [''error writing history file: '' @ e @ [newline]],
                           term' := term' j @ [Close]\<rparr>)"
    by (auto simp add: Start_def write_history_def Let_def split: option.split)
qed


text \<open>
  A session of the one line \<open>quit\<close>.  With every file operation on the history file
  failing, \<open>Start\<close> returns no error, the failure to write is the only output and the line
  editor is only closed.  With every file operation succeeding, the history is read, written
  and the line editor closed, and nothing is printed.
\<close>

theorem history_io_failures_witness:
  "(\<exists>i'. Start demo_clif demo_shell [] no_history_io [Line ''quit''] no_history_io = Inr (None, i') \<and>
      last (Output i') = ''error writing history file: permission denied'' @ [newline]) \<and>
   Start demo_clif demo_shell [] no_history_io [Line ''quit''] no_history_io
     = Inr (None, demo_shell\<lparr>Output := Output demo_shell
                                  @ [''error writing history file: permission denied'' @ [newline]],
                               term' := term' demo_shell @ [Close]\<rparr>) \<and>
   Start demo_clif demo_shell [] ok_history_io [Line ''quit''] ok_history_io
     = Inr (None, demo_shell\<lparr>term' := term' demo_shell @ [ReadHistory, WriteHistory, Close]\<rparr>)"
proof -
  have r: "read_loop demo_clif demo_shell [Line ''quit''] = Inr demo_shell"
    by (simp add: tokenize_quit RunCommand_def)
  have r': "read_loop demo_clif (demo_shell\<lparr>term' := term' demo_shell @ [ReadHistory]\<rparr>) [Line ''quit'']
              = Inr (demo_shell\<lparr>term' := term' demo_shell @ [ReadHistory]\<rparr>)"
    by (simp add: tokenize_quit RunCommand_def)
  have c: "create_err no_history_io = Some ''permission denied''" "open_err no_history_io \<noteq> None"
    "create_err ok_history_io = None" "open_err ok_history_io = None"
    by (simp_all add: no_history_io_def ok_history_io_def)
  note t1 = history_io_failures[where L = demo_clif and i = demo_shell and inputs = "[Line ''quit'']"
      and j = demo_shell and ?io1.0 = no_history_io and ?io2.0 = no_history_io]
  note t2 = history_io_failures[where L = demo_clif and i = demo_shell and inputs = "[Line ''quit'']"
      and j = "demo_shell\<lparr>term' := term' demo_shell @ [ReadHistory]\<rparr>"
      and ?io1.0 = ok_history_io and ?io2.0 = ok_history_io]
  from t1 r c have "\<exists>i'. Start demo_clif demo_shell [] no_history_io [Line ''quit''] no_history_io = Inr (None, i') \<and>
      last (Output i') = ''error writing history file: permission denied'' @ [newline]"
    by auto
  moreover from t1 r c have "Start demo_clif demo_shell [] no_history_io [Line ''quit''] no_history_io
     = Inr (None, demo_shell\<lparr>Output := Output demo_shell
                                  @ [''error writing history file: permission denied'' @ [newline]],
                               term' := term' demo_shell @ [Close]\<rparr>)"
    by simp
  moreover from t2 r' c have "Start demo_clif demo_shell [] ok_history_io [Line ''quit''] ok_history_io
     = Inr (None, demo_shell\<lparr>term' := term' demo_shell @ [ReadHistory, WriteHistory, Close]\<rparr>)"
    by simp
  ultimately show ?thesis by blast
qed


end
